theory Spec2Isabelle
  imports Main "HOL-Library.Multiset"
begin

section \<open>One agent iteration: the data model\<close>

text \<open>
  The three source files hold one function each: \<open>runNextIteration\<close>
  (agent_executor_precompile.py) and two variants of \<open>executeAgent\<close>
  (agent_execitor_precompile.py and precompile.py). The names bound to \<open>{}\<close> at the top of
  each file (\<open>modelRegistry\<close>, \<open>reasoningRegistry\<close>, \<open>Engines\<close>, \<open>AgentIterationResult\<close>,
  \<open>IERCAgentTool\<close>, \<open>abi\<close>) stand for declarations the files do not contain. The two
  registries are dictionaries, as written; the constructors become records; \<open>abi\<close> and
  \<open>json\<close> become collaborators passed in as a record of functions.

  Raw values, type tags, prompts and encoded bytes are all strings (a \<open>char\<close> is a byte).
\<close>

type_synonym type_tag = string
type_synonym bytes = string

subsection \<open>Errors\<close>

text \<open>
  The code raises nothing by name. What it can raise itself is Python's \<open>AttributeError\<close>
  (an attribute read on \<open>None\<close>, the result of a \<open>.get\<close> that found nothing; the argument
  is the attribute) and \<open>KeyError\<close> (a subscript with a key the dictionary lacks; the
  argument is the key). The remaining constructors are the kinds of the specification's
  taxonomy: the code never raises them, a collaborator may.
\<close>

datatype error =
    AttributeError string
  | KeyError string
  | UnknownModel
  | UnknownReasoningStrategy
  | ModelUnavailable
  | UnparsableOutput
  | UnknownTool
  | UnknownParameter string
  | MissingParameter string
  | EncodingError string type_tag string

subsection \<open>Dictionaries\<close>

text \<open>
  A Python dictionary keeps its keys in the order of their first insertion, and an
  assignment to a key already present replaces the value where it stands. The model is an
  association list with that assignment; \<open>d.get(k)\<close> is \<open>dict_get\<close> (\<open>None\<close> when absent),
  and a comprehension \<open>{k: v for ...}\<close> assigns the pairs from left to right.
\<close>

type_synonym ('k, 'v) dict = "('k \<times> 'v) list"

fun dict_set :: "('k, 'v) dict \<Rightarrow> 'k \<Rightarrow> 'v \<Rightarrow> ('k, 'v) dict" where
  "dict_set [] k v = [(k, v)]"
| "dict_set ((k', v') # d) k v =
     (if k' = k then (k', v) # d else (k', v') # dict_set d k v)"

definition dict_get :: "('k, 'v) dict \<Rightarrow> 'k \<Rightarrow> 'v option" where
  "dict_get d k = map_of d k"

definition dict_of :: "('k \<times> 'v) list \<Rightarrow> ('k, 'v) dict" where
  "dict_of kvs = foldl (\<lambda>d kv. dict_set d (fst kv) (snd kv)) [] kvs"

definition dict_values :: "('k, 'v) dict \<Rightarrow> 'v list" where
  "dict_values d = map snd d"

subsection \<open>Tools, next steps and results\<close>

record param_description =
  pd_name :: string
  pd_type :: type_tag

record input_description =
  paramDescriptions :: "param_description list"

text \<open>
  A tool, and equally the metadata dictionary \<open>runNextIteration\<close> builds from a tool
  (keys \<open>name\<close>, \<open>description\<close>, \<open>inputDescription\<close>).
\<close>

record tool =
  name :: string
  description :: string
  inputDescription :: input_description

text \<open>The object returned by the reasoning engine's \<open>parse\<close>; \<open>ns_params\<close> is JSON text.\<close>

record next_step =
  isDone :: bool
  answer :: string
  toolName :: string
  ns_params :: string
  reasoning :: string

text \<open>One element of \<open>json.parse(nextStep.params).array()\<close>.\<close>

record raw_param =
  p_name :: string
  p_value :: string

text \<open>\<open>IERCAgentTool.ParamValue\<close> and \<open>IERCAgentTool.Input\<close>.\<close>

record param_value =
  pv_type :: type_tag
  pv_value :: bytes

record tool_input =
  i_params :: "(string, param_value) dict"
  i_abiEncodedParams :: bytes

text \<open>
  \<open>AgentIterationResult\<close> is built from keyword arguments; a keyword that a call does not
  pass is \<open>None\<close>. The keyword \<open>params\<close> is passed by precompile.py only.
\<close>

record agent_iteration_result =
  isFinalAnswer :: bool
  finalAnswer :: "string option"
  r_tool :: "tool option"
  r_toolInput :: "tool_input option"
  r_params :: "(string, param_value) dict option"
  r_agentReasoning :: "string option"

subsection \<open>Collaborators and state\<close>

record llm =
  run :: "string \<Rightarrow> error + string"

record reasoning_engine =
  buildPrompt :: "string \<Rightarrow> tool list \<Rightarrow> string \<Rightarrow> string \<Rightarrow> string"
  parse :: "string \<Rightarrow> error + next_step"

datatype engines = RE_ACT

text \<open>
  \<open>abi.encode\<close> is called with a value and a type (\<open>abi_encode\<close>) and with one list
  (\<open>abi_encode_list\<close>); \<open>json_parse\<close> is \<open>json.parse(...).array()\<close>.
\<close>

record env =
  abi_encode :: "string \<Rightarrow> type_tag \<Rightarrow> error + bytes"
  abi_encode_list :: "bytes list \<Rightarrow> bytes"
  json_parse :: "string \<Rightarrow> error + raw_param list"

text \<open>Every step that leaves a mark: a collaborator called, or the catalog looked up.\<close>

datatype call =
    BuildPrompt
  | Run
  | Parse
  | ToolLookup string
  | JsonParse
  | Encode string
  | EncodeList

text \<open>
  The mutable objects an iteration can reach: the two module-level registries, the list
  object passed as the argument \<open>tools\<close>, and the log of calls made so far.
\<close>

record state =
  modelRegistry :: "(string, llm) dict"
  reasoningRegistry :: "(engines, reasoning_engine) dict"
  st_tools :: "tool list"
  calls :: "call list"

definition logCall :: "call \<Rightarrow> state \<Rightarrow> state" where
  "logCall c st = st\<lparr>calls := calls st @ [c]\<rparr>"

section \<open>The iteration\<close>

text \<open>
  The three lines every variant shares:
  \<^verbatim>\<open>
    llmPrompt = reasoningEngine.buildPrompt(basePrompt, toolsMetadata, agentReasoning, prompt)
    llmOutput = llm.run(llmPrompt)
    nextStep = reasoningEngine.parse(llmOutput)
  \<close>
  with \<open>llm\<close> and \<open>reasoningEngine\<close> the results of the two \<open>.get\<close> calls before them,
  which are \<open>None\<close> for an identifier that is not registered: the failure comes when an
  attribute of \<open>None\<close> is read, \<open>buildPrompt\<close> first.
\<close>

definition promptRunParse ::
  "llm option \<Rightarrow> reasoning_engine option \<Rightarrow> string \<Rightarrow> tool list \<Rightarrow> string \<Rightarrow> string \<Rightarrow>
   state \<Rightarrow> (error + next_step) \<times> state" where
  "promptRunParse llm reasoningEngine basePrompt toolsMetadata agentReasoning prompt st =
     (case reasoningEngine of
        None \<Rightarrow> (Inl (AttributeError ''buildPrompt''), st)
      | Some re \<Rightarrow>
          let llmPrompt = buildPrompt re basePrompt toolsMetadata agentReasoning prompt;
              st1 = logCall BuildPrompt st
          in (case llm of
                None \<Rightarrow> (Inl (AttributeError ''run''), st1)
              | Some m \<Rightarrow>
                  let st2 = logCall Run st1
                  in (case run m llmPrompt of
                        Inl e \<Rightarrow> (Inl e, st2)
                      | Inr llmOutput \<Rightarrow>
                          let st3 = logCall Parse st2
                          in (case parse re llmOutput of
                                Inl e \<Rightarrow> (Inl e, st3)
                              | Inr nextStep \<Rightarrow> (Inr nextStep, st3)))))"

text \<open>
  The loop over the raw parameters:
  \<^verbatim>\<open>
    for param in params.array():
        paramDescription = toolInputByName[param.name]
        parsedParams[param.name] = IERCAgentTool.ParamValue(
            type=paramDescription.type,
            value=abi.encode(param.value, paramDescription.type))
  \<close>
  The subscript raises \<open>KeyError\<close> for a name the tool does not declare; the encoder is
  called, and the call logged, only after the subscript. (precompile.py passes the encoded
  value without the keyword \<open>value\<close>.)
\<close>

fun parseLoop ::
  "env \<Rightarrow> (string, param_description) dict \<Rightarrow> raw_param list \<Rightarrow> (string, param_value) dict \<Rightarrow>
   state \<Rightarrow> (error + (string, param_value) dict) \<times> state" where
  "parseLoop e toolInputByName [] parsedParams st = (Inr parsedParams, st)"
| "parseLoop e toolInputByName (param # rest) parsedParams st =
     (case dict_get toolInputByName (p_name param) of
        None \<Rightarrow> (Inl (KeyError (p_name param)), st)
      | Some paramDescription \<Rightarrow>
          (case abi_encode e (p_value param) (pd_type paramDescription) of
             Inl err \<Rightarrow> (Inl err, logCall (Encode (p_name param)) st)
           | Inr v \<Rightarrow>
               parseLoop e toolInputByName rest
                 (dict_set parsedParams (p_name param)
                    \<lparr>pv_type = pd_type paramDescription, pv_value = v\<rparr>)
                 (logCall (Encode (p_name param)) st)))"

text \<open>
  \<open>toolInputByName = {input.name: input for input in tool.inputDescription.paramDescriptions}\<close>
\<close>

definition toolInputByName :: "tool \<Rightarrow> (string, param_description) dict" where
  "toolInputByName t =
     dict_of (map (\<lambda>input. (pd_name input, input)) (paramDescriptions (inputDescription t)))"

text \<open>
  From the result of \<open>toolsByName.get(nextStep.toolName)\<close> to the end of the loop. When the
  catalog has no such tool, \<open>tool\<close> is \<open>None\<close> and reading \<open>tool.inputDescription\<close> raises.
\<close>

definition parseParams ::
  "env \<Rightarrow> tool option \<Rightarrow> next_step \<Rightarrow> state \<Rightarrow> (error + (string, param_value) dict) \<times> state" where
  "parseParams e tool nextStep st =
     (case tool of
        None \<Rightarrow> (Inl (AttributeError ''inputDescription''), st)
      | Some t \<Rightarrow>
          let st1 = logCall JsonParse st
          in (case json_parse e (ns_params nextStep) of
                Inl err \<Rightarrow> (Inl err, st1)
              | Inr params \<Rightarrow> parseLoop e (toolInputByName t) params [] st1))"

text \<open>
  The resolver and encoder: the above, then
  \<^verbatim>\<open>
    abiEncodedParams = abi.encode([params.value for params in parsedParams])
  \<close>
  and \<open>IERCAgentTool.Input(params=parsedParams, abiEncodedParams=abiEncodedParams)\<close>. The
  comprehension is read as ranging over the \<open>ParamValue\<close>s held by \<open>parsedParams\<close>, in the
  dictionary's order, which is the order in which the names were first assigned.
\<close>

definition toolInputFor ::
  "env \<Rightarrow> tool option \<Rightarrow> next_step \<Rightarrow> state \<Rightarrow> (error + tool_input) \<times> state" where
  "toolInputFor e tool nextStep st =
     (case parseParams e tool nextStep st of
        (Inl err, st1) \<Rightarrow> (Inl err, st1)
      | (Inr parsedParams, st1) \<Rightarrow>
          let abiEncodedParams = abi_encode_list e (map pv_value (dict_values parsedParams))
          in (Inr \<lparr>i_params = parsedParams, i_abiEncodedParams = abiEncodedParams\<rparr>,
              logCall EncodeList st1))"

text \<open>
  \<open>toolsMetadata = [{'name': tool.name(), ...} for tool in tools]\<close> and
  \<open>toolsByName = {tool.name: tool for tool in toolsMetadata}\<close>.
\<close>

definition toolsMetadata :: "tool list \<Rightarrow> tool list" where
  "toolsMetadata tools =
     map (\<lambda>t. \<lparr>name = name t, description = description t,
               inputDescription = inputDescription t\<rparr>) tools"

definition toolsByName :: "tool list \<Rightarrow> (string, tool) dict" where
  "toolsByName tools = dict_of (map (\<lambda>t. (name t, t)) tools)"

text \<open>\<open>runNextIteration\<close> of agent_executor_precompile.py.\<close>

definition runNextIteration ::
  "env \<Rightarrow> string \<Rightarrow> string \<Rightarrow> string \<Rightarrow> string \<Rightarrow> state \<Rightarrow>
   (error + agent_iteration_result) \<times> state" where
  "runNextIteration e modelId basePrompt agentReasoning prompt st =
     (let llm = dict_get (modelRegistry st) modelId;
          reasoningEngine = dict_get (reasoningRegistry st) RE_ACT;
          metadata = toolsMetadata (st_tools st);
          byName = toolsByName metadata
      in (case promptRunParse llm reasoningEngine basePrompt metadata agentReasoning prompt st of
            (Inl err, st1) \<Rightarrow> (Inl err, st1)
          | (Inr nextStep, st1) \<Rightarrow>
              if isDone nextStep then
                (Inr \<lparr>isFinalAnswer = True, finalAnswer = Some (answer nextStep),
                      r_tool = None, r_toolInput = None, r_params = None,
                      r_agentReasoning = None\<rparr>, st1)
              else
                let tool = dict_get byName (toolName nextStep);
                    st2 = logCall (ToolLookup (toolName nextStep)) st1
                in (case toolInputFor e tool nextStep st2 of
                      (Inl err, st3) \<Rightarrow> (Inl err, st3)
                    | (Inr ti, st3) \<Rightarrow>
                        (Inr \<lparr>isFinalAnswer = False, finalAnswer = None,
                              r_tool = tool, r_toolInput = Some ti, r_params = None,
                              r_agentReasoning = Some (reasoning nextStep)\<rparr>, st3))))"



section \<open>Vocabulary of the properties\<close>




text \<open>Two states with the same registries and the same catalog.\<close>

definition sameStore :: "state \<Rightarrow> state \<Rightarrow> bool" where
  "sameStore st st' \<longleftrightarrow>
     modelRegistry st' = modelRegistry st \<and> reasoningRegistry st' = reasoningRegistry st \<and>
     st_tools st' = st_tools st"

section \<open>A worked catalog\<close>















section \<open>Dictionaries\<close>











section \<open>The loop over the raw parameters\<close>








text \<open>What the loop returns does not depend on the state it starts in.\<close>

lemma parseLoop_state_independent:
  "fst (parseLoop e byName raw acc st) = fst (parseLoop e byName raw acc st')"
  by (induction raw arbitrary: acc st st') (auto split: option.splits sum.splits)

section \<open>What an iteration leaves untouched\<close>

lemma sameStore_logCall [simp]: "sameStore st (logCall c st') = sameStore st st'"
  by (simp add: sameStore_def logCall_def)

lemma sameStore_refl [simp]: "sameStore st st"
  by (simp add: sameStore_def)

lemma promptRunParse_frame:
  "sameStore st0 st \<Longrightarrow> sameStore st0 (snd (promptRunParse llm re bp tm ar p st))"
  by (simp add: promptRunParse_def Let_def split: option.splits sum.splits)

lemma parseLoop_frame:
  "sameStore st0 st \<Longrightarrow> sameStore st0 (snd (parseLoop e byName raw acc st))"
  by (induction raw arbitrary: acc st) (auto split: option.splits sum.splits)

lemma parseParams_frame:
  "sameStore st0 st \<Longrightarrow> sameStore st0 (snd (parseParams e t ns st))"
  by (simp add: parseParams_def Let_def parseLoop_frame split: option.splits sum.splits)

lemma toolInputFor_frame:
  "sameStore st0 st \<Longrightarrow> sameStore st0 (snd (toolInputFor e t ns st))"
  using parseParams_frame [of st0 st e t ns]
  by (auto simp: toolInputFor_def Let_def split: prod.splits sum.splits)

lemma runNextIteration_frame:
  "sameStore st (snd (runNextIteration e modelId basePrompt agentReasoning prompt st))"
proof -
  let ?a = "promptRunParse (dict_get (modelRegistry st) modelId)
     (dict_get (reasoningRegistry st) RE_ACT) basePrompt (toolsMetadata (st_tools st))
     agentReasoning prompt st"
  have a: "sameStore st (snd ?a)" by (rule promptRunParse_frame) simp
  have b: "sameStore st (snd (toolInputFor e t ns (logCall c (snd ?a))))" for t ns c
    by (rule toolInputFor_frame) (simp add: a)
  show ?thesis
  proof (cases ?a)
    case (Pair r st1)
    show ?thesis
    proof (cases r)
      case (Inl err)
      with Pair a show ?thesis by (simp add: runNextIteration_def)
    next
      case (Inr nextStep)
      with Pair a b [of "dict_get (toolsByName (toolsMetadata (st_tools st))) (toolName nextStep)"
          nextStep "ToolLookup (toolName nextStep)"]
      show ?thesis
        by (auto simp: runNextIteration_def Let_def split: prod.splits sum.splits)
    qed
  qed
qed

section \<open>The tool-call branch\<close>





section \<open>The claims\<close>

subsection \<open>C1: order of the aggregate payload\<close>




subsection \<open>C2: a declared parameter the model does not supply\<close>




subsection \<open>C3: a raw parameter the tool does not declare\<close>




subsection \<open>C4: a model identifier that is not registered\<close>




subsection \<open>C5: a tool name the catalog does not hold\<close>




subsection \<open>C6: a finished step\<close>



subsection \<open>C7: the resolver and encoder is deterministic\<close>

text \<open>
  Claim C7. Two runs of the resolver and encoder over the same tool and the same parsed
  next step, with the same encoder, give the same outcome: the same \<open>ToolInput\<close> (params
  mapping and payload bytes), or the same error, whatever the state each run starts in
  (registries, catalog, calls made before).
\<close>

theorem toolInputFor_deterministic:
  "fst (toolInputFor e tool nextStep st) = fst (toolInputFor e tool nextStep st')"
proof (cases tool)
  case None
  then show ?thesis by (simp add: toolInputFor_def parseParams_def)
next
  case (Some t)
  show ?thesis
  proof (cases "json_parse e (ns_params nextStep)")
    case (Inl err)
    with Some show ?thesis by (simp add: toolInputFor_def parseParams_def)
  next
    case (Inr raw)
    have "fst (parseLoop e (toolInputByName t) raw [] (logCall JsonParse st)) =
          fst (parseLoop e (toolInputByName t) raw [] (logCall JsonParse st'))"
      by (rule parseLoop_state_independent)
    with Some Inr show ?thesis
      by (auto simp: toolInputFor_def parseParams_def Let_def split: prod.splits sum.splits)
  qed
qed

subsection \<open>C8: the catalog and the registries are left as they were\<close>

text \<open>
  Claim C8. An iteration never changes the tool catalog or the registries: for every
  input, in the state the iteration ends in, whether with a result or with any error, the
  model registry, the reasoning registry and the catalog are those it started with.
\<close>

theorem iteration_frame:
  "modelRegistry (snd (runNextIteration e modelId basePrompt agentReasoning prompt st)) =
     modelRegistry st \<and>
   reasoningRegistry (snd (runNextIteration e modelId basePrompt agentReasoning prompt st)) =
     reasoningRegistry st \<and>
   st_tools (snd (runNextIteration e modelId basePrompt agentReasoning prompt st)) = st_tools st"
  using runNextIteration_frame [of st e modelId basePrompt agentReasoning prompt]
  by (simp add: sameStore_def)

subsection \<open>C9: a parameter name given more than once\<close>



subsection \<open>C10: the two variants of \<open>executeAgent\<close>\<close>



end
